theory Spec2Isabelle
  imports Complex_Main
begin

section \<open>Python values and errors\<close>

text \<open>
  The exceptions that can leave the functions modelled here. \<open>HTTPException\<close> carries the
  status code and the detail string that \<open>main.py\<close> gives it; the message texts of
  \<open>IndexError\<close> and \<open>ValueError\<close> are not modelled.
\<close>

datatype error =
    IndexError
  | ValueError
  | HTTPException nat string

text \<open>
  Python list indexing \<open>xs[i]\<close>: an index in \<open>[0, len)\<close> reads from the front, an index in
  \<open>[-len, 0)\<close> reads from the end, every other index raises \<open>IndexError\<close>.
\<close>

definition py_getitem :: "'a list \<Rightarrow> int \<Rightarrow> error + 'a" where
  "py_getitem xs i =
     (let n = int (length xs) in
      if 0 \<le> i \<and> i < n then Inr (xs ! nat i)
      else if - n \<le> i \<and> i < 0 then Inr (xs ! nat (n + i))
      else Inl IndexError)"

text \<open>\<open>str(n)\<close> for a Python int: decimal digits, with a minus sign when negative.\<close>

definition digit_char :: "nat \<Rightarrow> char" where
  "digit_char d = ''0123456789'' ! d"

function str_nat :: "nat \<Rightarrow> string" where
  "str_nat n = (if n < 10 then [digit_char n] else str_nat (n div 10) @ [digit_char (n mod 10)])"
  by pat_completeness auto
termination
  by (relation "measure id") auto

declare str_nat.simps [simp del]

definition str_int :: "int \<Rightarrow> string" where
  "str_int i = (if i < 0 then CHR ''-'' # str_nat (nat (- i)) else str_nat (nat i))"

section \<open>The question bank (model\_utils.py, QUESTIONS)\<close>

record question =
  question :: string
  options :: "string list"
  scores :: "int list"

definition QUESTIONS :: "question list" where
  "QUESTIONS = [
    \<lparr>question = ''Which of the following best describes a 'for' loop?'',
     options = [''A conditional statement'', ''A way to store multiple values'',
                ''A control flow statement for iterating'', ''A function that calls itself''],
     scores = [2, 3, 10, 1]\<rparr>,
    \<lparr>question = ''How would you efficiently create a new list of only even numbers from an existing list?'',
     options = [''Series of 'if-else' statements'', ''A loop that checks each number'',
                ''A function for every possible number'', ''Store numbers in separate variables''],
     scores = [3, 10, 1, 2]\<rparr>,
    \<lparr>question = ''What is the primary purpose of a function in programming?'',
     options = [''To stop the program'', ''To store data'', ''To group reusable code'',
                ''To create comments''],
     scores = [1, 3, 10, 2]\<rparr>,
    \<lparr>question = ''If a coin is flipped twice, what is the probability of getting two heads?'',
     options = [''1/2'', ''1/3'', ''1/4'', ''1''],
     scores = [3, 2, 10, 1]\<rparr>,
    \<lparr>question = ''What does the 'mean' of a dataset represent?'',
     options = [''The middle value'', ''The most frequent value'', ''The average of all values'',
                ''The range of values''],
     scores = [4, 3, 10, 2]\<rparr>,
    \<lparr>question = ''An upward trend in a graph where both variables increase together is called:'',
     options = [''Negative correlation'', ''Positive correlation'', ''No correlation'',
                ''A statistical error''],
     scores = [1, 10, 2, 1]\<rparr>,
    \<lparr>question = ''What is the role of a server in a client-server relationship?'',
     options = [''To request information'', ''To provide resources or services'',
                ''The user's main computer'', ''To protect from viruses''],
     scores = [3, 10, 2, 4]\<rparr>,
    \<lparr>question = ''Which of the following best describes 'the cloud'?'',
     options = [''A single, massive computer'', ''A network of servers accessed via internet'',
                ''A personal storage device'', ''Software for documents''],
     scores = [2, 10, 1, 1]\<rparr>,
    \<lparr>question = ''What is an API (Application Programming Interface)?'',
     options = [''A visual user interface'', ''A set of rules for app communication'',
                ''A database for storage'', ''A security protocol''],
     scores = [3, 10, 2, 4]\<rparr>,
    \<lparr>question = ''When designing a website, what is the most important consideration?'',
     options = [''Using many colors'', ''Intuitive user navigation'', ''Complex animations'',
                ''Smallest font size''],
     scores = [2, 10, 1, 1]\<rparr>,
    \<lparr>question = ''What's the best way to create visual hierarchy on a poster?'',
     options = [''Make all text the same'', ''Make important info larger/bolder'',
                ''Put least important info at top'', ''Fill every empty space''],
     scores = [1, 10, 1, 2]\<rparr>,
    \<lparr>question = ''What is the primary goal of UX (User Experience) design?'',
     options = [''Making a product look appealing'', ''Focusing on branding/logo'',
                ''Enhancing usability and accessibility'', ''Writing the application code''],
     scores = [4, 2, 10, 1]\<rparr>,
    \<lparr>question = ''What's a constructive way to handle disagreement with a teammate?'',
     options = [''Ignore their idea'', ''Publicly criticize them'', ''Discuss pros and cons together'',
                ''Complain to someone else''],
     scores = [1, 1, 10, 1]\<rparr>,
    \<lparr>question = ''What is the main purpose of version control software like Git?'',
     options = [''To write code automatically'', ''To track changes and manage collaboration'',
                ''To design the UI'', ''To store only the final version''],
     scores = [1, 10, 1, 2]\<rparr>,
    \<lparr>question = ''When presenting to stakeholders, it's most important to:'',
     options = [''Use highly technical jargon'', ''Focus only on what went wrong'',
                ''Clearly communicate progress and challenges'',
                ''Make the presentation as long as possible''],
     scores = [1, 1, 10, 1]\<rparr>
  ]"

section \<open>JSON values\<close>

text \<open>
  The values that \<open>json.loads\<close> and \<open>r.json()\<close> produce and that the roadmap is made of: Python's
  \<open>None\<close>, \<open>bool\<close>, \<open>int\<close>, \<open>float\<close> (carried as the rational it denotes), \<open>str\<close>, \<open>list\<close> and
  \<open>dict\<close> with string keys (an association list in insertion order).
\<close>

datatype json =
    JNull
  | JBool bool
  | JInt int
  | JFloat rat
  | JStr string
  | JArr "json list"
  | JObj "(string \<times> json) list"

text \<open>Python truthiness, as the \<open>or\<close> and \<open>not\<close> operators and the conditional expression use it.\<close>

fun truthy :: "json \<Rightarrow> bool" where
  "truthy JNull = False"
| "truthy (JBool b) = b"
| "truthy (JInt i) = (i \<noteq> 0)"
| "truthy (JFloat r) = (r \<noteq> 0)"
| "truthy (JStr s) = (s \<noteq> [])"
| "truthy (JArr xs) = (xs \<noteq> [])"
| "truthy (JObj kvs) = (kvs \<noteq> [])"

definition py_or :: "json \<Rightarrow> json \<Rightarrow> json" where
  "py_or a b = (if truthy a then a else b)"

fun type_name :: "json \<Rightarrow> string" where
  "type_name JNull = ''NoneType''"
| "type_name (JBool b) = ''bool''"
| "type_name (JInt i) = ''int''"
| "type_name (JFloat r) = ''float''"
| "type_name (JStr s) = ''str''"
| "type_name (JArr xs) = ''list''"
| "type_name (JObj kvs) = ''dict''"

definition quoted :: "string \<Rightarrow> string" where
  "quoted s = [CHR 0x27] @ s @ [CHR 0x27]"

text \<open>
  \<open>resp.get(key)\<close>: on a dict the value stored under the key, or \<open>None\<close>; every other JSON value
  has no \<open>get\<close> attribute and the call raises \<open>AttributeError\<close>, given here by its message.
\<close>

fun py_get :: "json \<Rightarrow> string \<Rightarrow> string + json" where
  "py_get (JObj kvs) key = Inr (case map_of kvs key of None \<Rightarrow> JNull | Some v \<Rightarrow> v)"
| "py_get v key = Inl (quoted (type_name v) @ '' object has no attribute '' @ quoted ''get'')"

text \<open>
  \<open>v[0]\<close> on a value: the first element of a list, the first character of a string; the
  other values raise (\<open>IndexError\<close>, \<open>KeyError\<close> or \<open>TypeError\<close>), which is all that the caller,
  a \<open>try\<close> block, can tell.
\<close>

fun subscript0 :: "json \<Rightarrow> json option" where
  "subscript0 (JArr (x # xs)) = Some x"
| "subscript0 (JStr (c # cs)) = Some (JStr [c])"
| "subscript0 v = None"

section \<open>The outside world\<close>

text \<open>
  A loaded model object. \<open>predict\<close> stands for \<open>MODEL.predict(X)\<close> on a pickled estimator and for
  \<open>MODEL.predict(xgboost.DMatrix(X)).tolist()\<close> on a booster; \<open>predict_proba\<close> for
  \<open>MODEL.predict_proba(X).tolist()\<close>. Each gives the message of the exception raised or the value
  returned. \<open>X\<close> is the one-row matrix that \<open>features_from_answers\<close> builds.
\<close>

record model_obj =
  predict :: "int list list \<Rightarrow> string + json"
  predict_proba :: "int list list \<Rightarrow> string + json"

text \<open>The request that \<open>requests.post\<close> is called with, and what comes back.\<close>

record http_request =
  endpoint :: string
  headers :: "(string \<times> string) list"
  payload :: json
  timeout :: nat

text \<open>
  A response object: \<open>raise_for_status\<close> is the message of the \<open>HTTPError\<close> that
  \<open>r.raise_for_status()\<close> raises, if it raises; \<open>json_body\<close> is what \<open>r.json()\<close> does, the message
  of its exception or the decoded body.
\<close>

record response =
  raise_for_status :: "string option"
  json_body :: "string + json"

text \<open>
  Everything the code reads from its environment or calls in a library: environment
  variables, the file system, the two model loaders, the HTTP client, the JSON codec, and the
  string conversions \<open>str\<close> (of a prediction) and \<open>repr\<close> (of a list of strings, inside an
  f-string). A raising call is \<open>None\<close> or \<open>Inl\<close> of the exception's message.
\<close>

record world =
  getenv :: "string \<Rightarrow> string option"
  path_exists :: "string \<Rightarrow> bool"
  joblib_load :: "string \<Rightarrow> model_obj option"
  xgb_imported :: bool
  booster_load_model :: "string \<Rightarrow> model_obj option"
  requests_post :: "http_request \<Rightarrow> string + response"
  json_loads :: "string \<Rightarrow> json option"
  json_dumps :: "json \<Rightarrow> string"
  py_repr :: "string list \<Rightarrow> string"
  py_str :: "json \<Rightarrow> string"

section \<open>Loading the classifier (model\_utils.py, load\_xgb\_model)\<close>

text \<open>
  The two loaders in the order the source tries them; the result is the pair
  \<open>(MODEL, MODEL_TYPE)\<close>, \<open>(None, None)\<close> when nothing could be loaded.
\<close>

definition try_loaders :: "world \<Rightarrow> string \<Rightarrow> model_obj option \<times> string option" where
  "try_loaders w path =
     (case joblib_load w path of
        Some m \<Rightarrow> (Some m, Some ''sklearn'')
      | None \<Rightarrow>
          if xgb_imported w then
            (case booster_load_model w path of
               Some booster \<Rightarrow> (Some booster, Some ''booster'')
             | None \<Rightarrow> (None, None))
          else (None, None))"

definition load_xgb_model :: "world \<Rightarrow> string \<Rightarrow> model_obj option \<times> string option" where
  "load_xgb_model w path =
     (if \<not> path_exists w path then
        (let alt = (case getenv w ''XGB_MODEL_PATH'' of None \<Rightarrow> path | Some p \<Rightarrow> p) in
         if path_exists w alt then try_loaders w alt else (None, None))
      else try_loaders w path)"

section \<open>The feature encoder (model\_utils.py, features\_from\_answers)\<close>

definition features_from_answers :: "int list \<Rightarrow> error + int list list" where
  "features_from_answers answers =
     (let n = length QUESTIONS in
      if length answers \<noteq> n then Inl ValueError else Inr [answers])"

section \<open>The fallback scorer (model\_utils.py, fallback\_score\_from\_answers)\<close>

text \<open>One entry of \<open>per_q\<close>: the dict with keys \<open>question\<close>, \<open>selected\<close> and \<open>score\<close>.\<close>

record per_question_record =
  pq_question :: string
  pq_selected :: string
  pq_score :: int

text \<open>
  The body of the \<open>for q, sel in zip(QUESTIONS, answers)\<close> loop, with the two accumulators
  \<open>total\<close> and \<open>per_q\<close>. Each of the two subscriptions can raise \<open>IndexError\<close>, which ends the
  loop. \<open>zip\<close> stops at the shorter of its two arguments.
\<close>

fun fallback_loop ::
  "(question \<times> int) list \<Rightarrow> int \<Rightarrow> per_question_record list
     \<Rightarrow> error + (int \<times> per_question_record list)" where
  "fallback_loop [] total' per_q = Inr (total', per_q)"
| "fallback_loop ((q, sel) # rest) total' per_q =
     (case py_getitem (scores q) sel of
        Inl e \<Rightarrow> Inl e
      | Inr sc \<Rightarrow>
          (case py_getitem (options q) sel of
             Inl e \<Rightarrow> Inl e
           | Inr opt \<Rightarrow>
               fallback_loop rest (total' + sc)
                 (per_q @ [\<lparr>pq_question = question q, pq_selected = opt, pq_score = sc\<rparr>])))"

definition fallback_score_from_answers ::
  "int list \<Rightarrow> error + (int \<times> per_question_record list)" where
  "fallback_score_from_answers answers = fallback_loop (zip QUESTIONS answers) 0 []"

section \<open>The roadmap generator (model\_utils.py, generate\_roadmap\_with\_gemini)\<close>

text \<open>
  The first loop: a record with score at least 8 is a strength, otherwise one with score at
  most 3 is a weakness; both lists hold question texts in the order of \<open>per_question\<close>.
\<close>

definition strengths_of :: "per_question_record list \<Rightarrow> string list" where
  "strengths_of per_question = map pq_question (filter (\<lambda>item. pq_score item \<ge> 8) per_question)"

definition weaknesses_of :: "per_question_record list \<Rightarrow> string list" where
  "weaknesses_of per_question =
     map pq_question (filter (\<lambda>item. \<not> pq_score item \<ge> 8 \<and> pq_score item \<le> 3) per_question)"

definition newline :: string where
  "newline = [CHR 0x0A]"

definition build_prompt :: "world \<Rightarrow> string \<Rightarrow> int \<Rightarrow> per_question_record list \<Rightarrow> string" where
  "build_prompt w user_name total_score per_question =
     ''Create a personalized 6-week learning roadmap for '' @ user_name @ '' in JSON.'' @ newline
     @ ''Total score: '' @ str_int total_score @ newline
     @ ''Strengths: '' @ py_repr w (strengths_of per_question) @ newline
     @ ''Weaknesses: '' @ py_repr w (weaknesses_of per_question) @ newline @ newline
     @ ''Output a JSON object with keys: summary (string), weeks (array of {week, goal, activities}), resources (array of {title, url, why}).''"

text \<open>
  The plan returned when there is no key. Strings are their UTF-8 bytes: the dash of the
  summary is the three bytes E2 80 94.
\<close>

definition week_entry :: "int \<Rightarrow> string \<Rightarrow> string list \<Rightarrow> json" where
  "week_entry n goal activities =
     JObj [(''week'', JInt n), (''goal'', JStr goal), (''activities'', JArr (map JStr activities))]"

definition resource_entry :: "string \<Rightarrow> string \<Rightarrow> string \<Rightarrow> json" where
  "resource_entry title url why =
     JObj [(''title'', JStr title), (''url'', JStr url), (''why'', JStr why)]"

definition heuristic_plan :: json where
  "heuristic_plan = JObj [
     (''summary'', JStr (''No Gemini key '' @ [CHR 0xE2, CHR 0x80, CHR 0x94] @ '' heuristic plan provided.'')),
     (''weeks'', JArr [
        week_entry 1 ''Basics refresh'' [''Revise loops & functions'', ''Small coding tasks''],
        week_entry 2 ''Data structures'' [''Practice lists, dicts, comprehensions''],
        week_entry 3 ''Probability & statistics basics'' [''Mean, probability tasks''],
        week_entry 4 ''APIs & Systems'' [''Build a small API endpoint''],
        week_entry 5 ''Design & UX'' [''Design a poster, apply visual hierarchy''],
        week_entry 6 ''Collaboration & presentation'' [''Use Git, prepare a presentation'']]),
     (''resources'', JArr [
        resource_entry ''LeetCode'' ''https://leetcode.com'' ''Short focused problems'',
        resource_entry ''MDN Web Docs'' ''https://developer.mozilla.org'' ''Web fundamentals''])]"

text \<open>
  \<open>api_key or os.getenv("GEMINI_API_KEY")\<close>: the per-request key when it is a non-empty string,
  otherwise whatever the environment holds.
\<close>

definition gemini_api_key_of :: "world \<Rightarrow> string option \<Rightarrow> string option" where
  "gemini_api_key_of w api_key =
     (case api_key of
        Some k \<Rightarrow> if k \<noteq> [] then Some k else getenv w ''GEMINI_API_KEY''
      | None \<Rightarrow> getenv w ''GEMINI_API_KEY'')"

text \<open>The request of the one outbound call. The float \<open>0.2\<close> is the double nearest to one fifth.\<close>

definition build_request :: "string \<Rightarrow> string \<Rightarrow> http_request" where
  "build_request gemini_api_key prompt =
     \<lparr>endpoint = ''https://api.generativeai.example/v1/generate'',
      headers = [(''Authorization'', ''Bearer '' @ gemini_api_key),
                 (''Content-Type'', ''application/json'')],
      payload = JObj [(''prompt'', JStr prompt), (''max_output_tokens'', JInt 800),
                      (''temperature'', JFloat (Fract 3602879701896397 18014398509481984))],
      timeout = 20\<rparr>"

text \<open>The handler of the outer \<open>try\<close>: every exception becomes a summary built from its message.\<close>

definition call_failed :: "string \<Rightarrow> json" where
  "call_failed e =
     JObj [(''summary'', JStr (''Gemini call failed: '' @ e @ ''. Returning heuristic roadmap.''))]"

text \<open>
  \<open>resp.get("output_text") or resp.get("result") or json.dumps(resp)\<close>; the first \<open>get\<close> raises
  when \<open>resp\<close> is not a dict.
\<close>

definition response_text :: "world \<Rightarrow> json \<Rightarrow> string + json" where
  "response_text w resp =
     (case py_get resp ''output_text'' of
        Inl e \<Rightarrow> Inl e
      | Inr a \<Rightarrow>
          if truthy a then Inr a
          else (case py_get resp ''result'' of
                  Inl e \<Rightarrow> Inl e
                | Inr b \<Rightarrow> if truthy b then Inr b else Inr (JStr (json_dumps w resp))))"

text \<open>
  The inner \<open>try\<close>: \<open>json.loads(text)\<close> raises on a value that is not a string and on a string
  that is not JSON; both give the summary-only dict holding \<open>text\<close> itself.
\<close>

definition parse_text :: "world \<Rightarrow> json \<Rightarrow> json" where
  "parse_text w text =
     (case text of
        JStr s \<Rightarrow> (case json_loads w s of Some parsed \<Rightarrow> parsed | None \<Rightarrow> JObj [(''summary'', text)])
      | _ \<Rightarrow> JObj [(''summary'', text)])"

text \<open>
  The function returns the roadmap together with the list of requests it has sent, so that a
  call that sends nothing can be told from one that does.
\<close>

definition generate_roadmap_with_gemini ::
  "world \<Rightarrow> string option \<Rightarrow> string \<Rightarrow> int \<Rightarrow> per_question_record list \<Rightarrow> string option
     \<Rightarrow> json \<times> http_request list" where
  "generate_roadmap_with_gemini w api_key user_name total_score per_question prediction =
     (let prompt = build_prompt w user_name total_score per_question in
      case gemini_api_key_of w api_key of
        None \<Rightarrow> (heuristic_plan, [])
      | Some gemini_api_key \<Rightarrow>
          if gemini_api_key = [] then (heuristic_plan, [])
          else
            (let req = build_request gemini_api_key prompt in
             (case requests_post w req of
                Inl e \<Rightarrow> call_failed e
              | Inr r \<Rightarrow>
                  (case raise_for_status r of
                     Some e \<Rightarrow> call_failed e
                   | None \<Rightarrow>
                       (case json_body r of
                          Inl e \<Rightarrow> call_failed e
                        | Inr resp \<Rightarrow>
                            (case response_text w resp of
                               Inl e \<Rightarrow> call_failed e
                             | Inr text \<Rightarrow> parse_text w text))),
              [req])))"

section \<open>The submit handler (main.py, submit)\<close>

text \<open>
  The \<open>try\<close> block around the classifier: the pair \<open>(prediction_label, model_score)\<close> as it stands
  when the block is left, normally or through its \<open>except\<close>. The test
  \<open>'xgboost' in globals()\<close> of the booster branch is true, since \<open>main.py\<close> imports the module
  at its top.
\<close>

definition classifier_step ::
  "world \<Rightarrow> model_obj option \<Rightarrow> string option \<Rightarrow> int list \<Rightarrow> string option \<times> json option" where
  "classifier_step w MODEL MODEL_TYPE answers =
     (case MODEL of
        None \<Rightarrow> (None, None)
      | Some m \<Rightarrow>
          (case features_from_answers answers of
             Inl e \<Rightarrow> (None, None)
           | Inr X \<Rightarrow>
               if MODEL_TYPE = Some ''sklearn'' then
                 (case predict m X of
                    Inl e \<Rightarrow> (None, None)
                  | Inr pred \<Rightarrow>
                      (let proba = (case predict_proba m X of Inl e \<Rightarrow> JNull | Inr p \<Rightarrow> p) in
                       case subscript0 pred of
                         None \<Rightarrow> (None, None)
                       | Some p0 \<Rightarrow>
                           (let prediction_label = py_str w p0 in
                            if truthy proba then
                              (case subscript0 proba of
                                 None \<Rightarrow> (Some prediction_label, None)
                               | Some model_score \<Rightarrow> (Some prediction_label, Some model_score))
                            else (Some prediction_label, None))))
               else
                 (case predict m X of
                    Inl e \<Rightarrow> (None, None)
                  | Inr preds \<Rightarrow> (Some (py_str w preds), Some preds))))"

text \<open>\<open>max(xs)\<close> and \<open>xs.index(v)\<close>; both raise \<open>ValueError\<close>, on an empty list and on a missing value.\<close>

fun py_max :: "int list \<Rightarrow> error + int" where
  "py_max [] = Inl ValueError"
| "py_max (x # xs) = Inr (fold max xs x)"

fun py_index :: "int list \<Rightarrow> int \<Rightarrow> error + nat" where
  "py_index [] v = Inl ValueError"
| "py_index (x # xs) v =
     (if x = v then Inr 0
      else (case py_index xs v of Inl e \<Rightarrow> Inl e | Inr k \<Rightarrow> Inr (Suc k)))"

definition correct_index_of :: "question \<Rightarrow> error + nat" where
  "correct_index_of q =
     (case py_max (scores q) of
        Inl e \<Rightarrow> Inl e
      | Inr m \<Rightarrow> py_index (scores q) m)"

text \<open>A list comprehension whose element expression can raise: the first exception ends it.\<close>

fun comprehension :: "('a \<Rightarrow> error + 'b) \<Rightarrow> 'a list \<Rightarrow> error + 'b list" where
  "comprehension f [] = Inr []"
| "comprehension f (x # xs) =
     (case f x of
        Inl e \<Rightarrow> Inl e
      | Inr y \<Rightarrow> (case comprehension f xs of Inl e \<Rightarrow> Inl e | Inr ys \<Rightarrow> Inr (y # ys)))"

definition correct_indices :: "error + nat list" where
  "correct_indices = comprehension correct_index_of QUESTIONS"

text \<open>One entry of \<open>per_question_feedback\<close>.\<close>

record feedback =
  fb_question :: string
  fb_chosen_index :: int
  fb_chosen_text :: string
  fb_is_correct :: bool
  fb_correct_index :: nat
  fb_correct_text :: string
  fb_score_for_choice :: int

text \<open>The dict built for question \<open>q\<close> at position \<open>i\<close>, its subscriptions in source order.\<close>

definition feedback_entry :: "int list \<Rightarrow> nat list \<Rightarrow> nat \<Rightarrow> question \<Rightarrow> error + feedback" where
  "feedback_entry answers indices i q =
     (case py_getitem answers (int i) of
        Inl e \<Rightarrow> Inl e
      | Inr chosen \<Rightarrow>
          (case py_getitem (options q) chosen of
             Inl e \<Rightarrow> Inl e
           | Inr chosen_text \<Rightarrow>
               (case py_getitem indices (int i) of
                  Inl e \<Rightarrow> Inl e
                | Inr ci \<Rightarrow>
                    (case py_getitem (options q) (int ci) of
                       Inl e \<Rightarrow> Inl e
                     | Inr correct_text \<Rightarrow>
                         (case py_getitem (scores q) chosen of
                            Inl e \<Rightarrow> Inl e
                          | Inr sc \<Rightarrow>
                              Inr \<lparr>fb_question = question q, fb_chosen_index = chosen,
                                   fb_chosen_text = chosen_text,
                                   fb_is_correct = (chosen = int ci),
                                   fb_correct_index = ci, fb_correct_text = correct_text,
                                   fb_score_for_choice = sc\<rparr>)))))"

definition per_question_feedback :: "int list \<Rightarrow> nat list \<Rightarrow> error + feedback list" where
  "per_question_feedback answers indices =
     comprehension (\<lambda>(i, q). feedback_entry answers indices i q) (enumerate 0 QUESTIONS)"

text \<open>
  What a successful submission yields: the body of the HTTP response (without the database's
  row id), the \<open>prediction\<close> column of the stored \<open>Result\<close> row, and the requests sent.
\<close>

record submit_result =
  sr_total_score :: int
  sr_roadmap :: json
  sr_per_question :: "feedback list"
  sr_prediction :: "string option"
  sr_requests :: "http_request list"

text \<open>
  The handler after authentication, with the module globals \<open>MODEL\<close> and \<open>MODEL_TYPE\<close> and the
  name of the current user as arguments. The database session is not part of the model.
\<close>

definition submit ::
  "world \<Rightarrow> model_obj option \<Rightarrow> string option \<Rightarrow> string \<Rightarrow> int list \<Rightarrow> string option
     \<Rightarrow> error + submit_result" where
  "submit w MODEL MODEL_TYPE user_name answers gemini_key =
     (if length answers \<noteq> length QUESTIONS then
        Inl (HTTPException 400 (''Expected '' @ str_nat (length QUESTIONS) @ '' answers''))
      else
        (let (prediction_label, model_score) = classifier_step w MODEL MODEL_TYPE answers in
         case fallback_score_from_answers answers of
           Inl e \<Rightarrow> Inl e
         | Inr (total_score, per_q) \<Rightarrow>
             (let (roadmap, sent) =
                    generate_roadmap_with_gemini w gemini_key user_name total_score per_q
                      prediction_label in
              case correct_indices of
                Inl e \<Rightarrow> Inl e
              | Inr indices \<Rightarrow>
                  (case per_question_feedback answers indices of
                     Inl e \<Rightarrow> Inl e
                   | Inr fbs \<Rightarrow>
                       Inr \<lparr>sr_total_score = total_score, sr_roadmap = roadmap,
                            sr_per_question = fbs, sr_prediction = prediction_label,
                            sr_requests = sent\<rparr>))))"

text \<open>
  The module-level load of \<open>main.py\<close>:
  \<open>MODEL, MODEL_TYPE = load_xgb_model(os.getenv("XGB_MODEL_PATH", "./models/xgb_model.joblib"))\<close>.
\<close>

definition MODEL_PATH :: "world \<Rightarrow> string" where
  "MODEL_PATH w = (case getenv w ''XGB_MODEL_PATH'' of None \<Rightarrow> ''./models/xgb_model.joblib'' | Some p \<Rightarrow> p)"

definition submit_request ::
  "world \<Rightarrow> string \<Rightarrow> int list \<Rightarrow> string option \<Rightarrow> error + submit_result" where
  "submit_request w user_name answers gemini_key =
     (let (MODEL, MODEL_TYPE) = load_xgb_model w (MODEL_PATH w) in
      submit w MODEL MODEL_TYPE user_name answers gemini_key)"

section \<open>Reading a roadmap, and a world to run the functions in\<close>

text \<open>The value stored under a key of a JSON object, if the value is an object and has the key.\<close>

fun field :: "json \<Rightarrow> string \<Rightarrow> json option" where
  "field (JObj kvs) key = map_of kvs key"
| "field v key = None"

text \<open>
  A world without files, environment variables or network: every lookup is empty and every
  call into a library raises. Concrete runs below start from it and replace single fields.
\<close>

definition bare_world :: world where
  "bare_world =
     \<lparr>getenv = (\<lambda>name. None),
      path_exists = (\<lambda>path. False),
      joblib_load = (\<lambda>path. None),
      xgb_imported = False,
      booster_load_model = (\<lambda>path. None),
      requests_post = (\<lambda>req. Inl ''Connection refused''),
      json_loads = (\<lambda>s. None),
      json_dumps = (\<lambda>v. ''{}''),
      py_repr = (\<lambda>xs. ''[]''),
      py_str = (\<lambda>v. ''1'')\<rparr>"

text \<open>
  Two model objects for concrete runs: an estimator that predicts class 1 and has no usable
  \<open>predict_proba\<close>, and one whose \<open>predict\<close> raises.
\<close>

definition label_only_model :: model_obj where
  "label_only_model =
     \<lparr>predict = (\<lambda>X. Inr (JArr [JInt 1])),
      predict_proba = (\<lambda>X. Inl ''predict_proba is not available'')\<rparr>"

definition broken_model :: model_obj where
  "broken_model =
     \<lparr>predict = (\<lambda>X. Inl ''Feature shape mismatch''),
      predict_proba = (\<lambda>X. Inl ''Feature shape mismatch'')\<rparr>"

text \<open>
  A world in which the service answers every request with status 200 and the given body, and
  in which \<open>json.loads\<close> knows the empty object only.
\<close>

definition answering_world :: "json \<Rightarrow> world" where
  "answering_world body =
     bare_world
       \<lparr>requests_post := (\<lambda>req. Inr \<lparr>raise_for_status = None, json_body = Inr body\<rparr>),
        json_loads := (\<lambda>s. if s = ''{}'' then Some (JObj []) else None)\<rparr>"

text \<open>A world in which the service answers every request with an error status.\<close>

definition refusing_world :: world where
  "refusing_world =
     bare_world
       \<lparr>requests_post := (\<lambda>req. Inr \<lparr>raise_for_status = Some ''500 Server Error'',
                                      json_body = Inl ''Expecting value''\<rparr>)\<rparr>"

section \<open>Facts about the question bank and list indexing\<close>

lemma length_QUESTIONS: "length QUESTIONS = 15"
  by (simp add: QUESTIONS_def)

lemma QUESTIONS_shape:
  "list_all (\<lambda>q. length (options q) = 4 \<and> length (scores q) = 4) QUESTIONS"
  by (simp add: QUESTIONS_def)

lemma QUESTIONS_lengths:
  assumes "q \<in> set QUESTIONS"
  shows "length (options q) = 4" and "length (scores q) = 4"
  using assms QUESTIONS_shape by (auto simp: list_all_iff)

lemma py_getitem_in_range:
  "0 \<le> i \<Longrightarrow> i < int (length xs) \<Longrightarrow> py_getitem xs i = Inr (xs ! nat i)"
  by (simp add: py_getitem_def)

lemma py_getitem_error:
  "py_getitem xs i = Inl e \<longleftrightarrow> e = IndexError \<and> (i < - int (length xs) \<or> int (length xs) \<le> i)"
  by (auto simp: py_getitem_def Let_def)

lemma zip_as_map_nth:
  "length xs = length ys \<Longrightarrow> zip xs ys = map (\<lambda>i. (xs ! i, ys ! i)) [0..<length xs]"
  by (rule nth_equalityI) simp_all

lemma sum_list_upt_lessThan: "sum_list (map f [0..<n]) = (\<Sum>i<n. (f i :: int))"
  by (simp add: interv_sum_list_conv_sum_set_nat atLeast0LessThan)

section \<open>The scorer on valid answers\<close>

lemma fallback_loop_in_range:
  assumes "\<forall>(q, sel) \<in> set zs. 0 \<le> sel \<and> sel < int (length (scores q)) \<and> sel < int (length (options q))"
  shows "fallback_loop zs t acc =
           Inr (t + sum_list (map (\<lambda>(q, sel). scores q ! nat sel) zs),
                acc @ map (\<lambda>(q, sel). \<lparr>pq_question = question q,
                                       pq_selected = options q ! nat sel,
                                       pq_score = scores q ! nat sel\<rparr>) zs)"
  using assms
proof (induction zs arbitrary: t acc)
  case Nil
  then show ?case by simp
next
  case (Cons z zs)
  obtain q sel where z: "z = (q, sel)" by (cases z)
  from Cons.prems z have r: "0 \<le> sel" "sel < int (length (scores q))" "sel < int (length (options q))"
    by auto
  from Cons.prems have rest: "\<forall>(q, sel) \<in> set zs. 0 \<le> sel \<and> sel < int (length (scores q)) \<and> sel < int (length (options q))"
    by simp
  show ?case
    by (simp add: z py_getitem_in_range r Cons.IH [OF rest] add.assoc)
qed

text \<open>
  Claim C1. For an answer list as long as the question bank, each entry a valid option index
  of its question, \<open>fallback_score_from_answers\<close> returns normally; the total is the sum over
  all positions \<open>i\<close> of \<open>scores[i][answers[i]]\<close>, and \<open>per_q\<close> holds, in question-bank order, one
  record per question with the question text, the text of the selected option and the points
  of that option.
\<close>

theorem fallback_score_valid_answers:
  assumes len: "length answers = length QUESTIONS"
    and valid: "\<forall>i<length QUESTIONS. 0 \<le> answers ! i \<and> answers ! i < int (length (options (QUESTIONS ! i)))"
  shows "fallback_score_from_answers answers =
           Inr ((\<Sum>i<length QUESTIONS. scores (QUESTIONS ! i) ! nat (answers ! i)),
                map (\<lambda>i. \<lparr>pq_question = question (QUESTIONS ! i),
                           pq_selected = options (QUESTIONS ! i) ! nat (answers ! i),
                           pq_score = scores (QUESTIONS ! i) ! nat (answers ! i)\<rparr>)
                    [0..<length QUESTIONS])"
proof -
  have z: "zip QUESTIONS answers = map (\<lambda>i. (QUESTIONS ! i, answers ! i)) [0..<length QUESTIONS]"
    using len by (simp add: zip_as_map_nth)
  have ok: "\<forall>(q, sel) \<in> set (zip QUESTIONS answers).
              0 \<le> sel \<and> sel < int (length (scores q)) \<and> sel < int (length (options q))"
  proof (clarify)
    fix q sel assume m: "(q, sel) \<in> set (zip QUESTIONS answers)"
    then obtain i where i: "i < length QUESTIONS" "q = QUESTIONS ! i" "sel = answers ! i"
      unfolding z by auto
    from m have "q \<in> set QUESTIONS" by (rule set_zip_leftD)
    then have "length (scores q) = length (options q)"
      by (simp add: QUESTIONS_lengths)
    with valid i show "0 \<le> sel \<and> sel < int (length (scores q)) \<and> sel < int (length (options q))"
      by simp
  qed
  show ?thesis
    unfolding fallback_score_from_answers_def fallback_loop_in_range [OF ok]
    by (simp add: z comp_def sum_list_upt_lessThan)
qed

theorem fallback_score_valid_answers_witness:
  "list_all2 (\<lambda>q sel. 0 \<le> sel \<and> sel < int (length (options q))) QUESTIONS
     [3, 0, 1, 2, 3, 0, 1, 2, 3, 0, 1, 2, 3, 0, 1]
   \<and> map_sum id fst (fallback_score_from_answers [3, 0, 1, 2, 3, 0, 1, 2, 3, 0, 1, 2, 3, 0, 1])
       = Inr (\<Sum>i<length QUESTIONS. scores (QUESTIONS ! i)
                ! nat ([3, 0, 1, 2, 3, 0, 1, 2, 3, 0, 1, 2, 3, 0, 1] ! i))"
proof -
  let ?v = "[3, 0, 1, 2, 3, 0, 1, 2, 3, 0, 1, 2, 3, 0, 1] :: int list"
  have h: "list_all2 (\<lambda>q sel. 0 \<le> sel \<and> sel < int (length (options q))) QUESTIONS ?v"
    by (simp add: QUESTIONS_def)
  have len: "length ?v = length QUESTIONS"
    using h by (rule list_all2_lengthD [symmetric])
  have valid: "\<forall>i<length QUESTIONS. 0 \<le> ?v ! i \<and> ?v ! i < int (length (options (QUESTIONS ! i)))"
    using h by (simp add: list_all2_conv_all_nth)
  show ?thesis
    using h fallback_score_valid_answers [OF len valid] by simp
qed

section \<open>When the scorer fails\<close>


lemma fallback_loop_error:
  "fallback_loop zs t acc = Inl e \<Longrightarrow> e = IndexError"
proof (induction zs arbitrary: t acc)
  case Nil
  then show ?case by simp
next
  case (Cons z zs)
  obtain q sel where z: "z = (q, sel)" by (cases z)
  from Cons.prems show ?case
    by (auto simp: z py_getitem_error split: sum.splits dest: Cons.IH)
qed

lemma fallback_loop_fails_iff:
  assumes "\<forall>(q, sel) \<in> set zs. length (scores q) = length (options q)"
  shows "(\<exists>e. fallback_loop zs t acc = Inl e) \<longleftrightarrow>
         (\<exists>(q, sel) \<in> set zs. sel < - int (length (options q)) \<or> int (length (options q)) \<le> sel)"
  using assms
proof (induction zs arbitrary: t acc)
  case Nil
  then show ?case by simp
next
  case (Cons z zs)
  obtain q sel where z: "z = (q, sel)" by (cases z)
  from Cons.prems z have eq: "length (scores q) = length (options q)" by simp
  from Cons.prems have rest: "\<forall>(q, sel) \<in> set zs. length (scores q) = length (options q)" by simp
  show ?case
  proof (cases "sel < - int (length (options q)) \<or> int (length (options q)) \<le> sel")
    case True
    then have "py_getitem (scores q) sel = Inl IndexError"
      using eq by (simp add: py_getitem_error)
    with True show ?thesis by (simp add: z)
  next
    case False
    then obtain sc where sc: "py_getitem (scores q) sel = Inr sc"
      using eq by (cases "py_getitem (scores q) sel") (auto simp: py_getitem_error)
    from False obtain opt where "py_getitem (options q) sel = Inr opt"
      by (cases "py_getitem (options q) sel") (auto simp: py_getitem_error)
    with sc False show ?thesis
      by (simp add: z Cons.IH [OF rest])
  qed
qed

text \<open>
  Claim C2, as the code has it. \<open>fallback_score_from_answers\<close> fails, and then with
  \<open>IndexError\<close>, exactly when some position that has both a question and an answer holds an
  index outside \<open>[-len(options), len(options))\<close>. An index in \<open>[-len(options), 0)\<close> does not
  fail: Python reads it from the end of the list. No other exception leaves the scorer.
\<close>

theorem fallback_score_index_error:
  "(fallback_score_from_answers answers = Inl IndexError \<longleftrightarrow>
      (\<exists>i. i < length QUESTIONS \<and> i < length answers \<and>
           (answers ! i < - int (length (options (QUESTIONS ! i)))
            \<or> int (length (options (QUESTIONS ! i))) \<le> answers ! i)))
   \<and> (\<forall>e. fallback_score_from_answers answers = Inl e \<longrightarrow> e = IndexError)"
proof -
  have eq: "\<forall>(q, sel) \<in> set (zip QUESTIONS answers). length (scores q) = length (options q)"
    by (auto dest!: set_zip_leftD simp: QUESTIONS_lengths)
  have only: "e = IndexError" if "fallback_score_from_answers answers = Inl e" for e
    using that unfolding fallback_score_from_answers_def by (rule fallback_loop_error)
  have "(\<exists>e. fallback_score_from_answers answers = Inl e) \<longleftrightarrow>
        (\<exists>(q, sel) \<in> set (zip QUESTIONS answers).
            sel < - int (length (options q)) \<or> int (length (options q)) \<le> sel)"
    unfolding fallback_score_from_answers_def by (rule fallback_loop_fails_iff [OF eq])
  also have "\<dots> \<longleftrightarrow> (\<exists>i. i < length QUESTIONS \<and> i < length answers \<and>
           (answers ! i < - int (length (options (QUESTIONS ! i)))
            \<or> int (length (options (QUESTIONS ! i))) \<le> answers ! i))"
    by (auto simp: set_zip)
  finally have "(\<exists>e. fallback_score_from_answers answers = Inl e) \<longleftrightarrow>
      (\<exists>i. i < length QUESTIONS \<and> i < length answers \<and>
           (answers ! i < - int (length (options (QUESTIONS ! i)))
            \<or> int (length (options (QUESTIONS ! i))) \<le> answers ! i))" .
  with only show ?thesis by blast
qed

text \<open>
  Claim C2 as stated says that every index outside \<open>[0, len(options))\<close>, negative ones
  included, makes scoring fail. The answer \<open>-1\<close> to the first question is scored as its last
  option (1 point), and the total is 31.
\<close>

theorem negative_index_counterexample:
  "[- 1, 0, 0, 0, 0, 0, 0, 0, 0, 0, 0, 0, 0, 0, 0] ! 0 < (0 :: int)
   \<and> map_sum id fst (fallback_score_from_answers [- 1, 0, 0, 0, 0, 0, 0, 0, 0, 0, 0, 0, 0, 0, 0])
       = Inr 31"
  by (simp add: fallback_score_from_answers_def QUESTIONS_def py_getitem_def)

theorem fallback_score_index_error_witness:
  "fallback_score_from_answers [0, 4, 0, 0, 0, 0, 0, 0, 0, 0, 0, 0, 0, 0, 0] = Inl IndexError
   \<and> fallback_score_from_answers [0, - 5, 0, 0, 0, 0, 0, 0, 0, 0, 0, 0, 0, 0, 0] = Inl IndexError
   \<and> fallback_score_from_answers [- 4, 3, - 1, 0, 0, 0, 0, 0, 0, 0, 0, 0, 0, 0, 0] \<noteq> Inl IndexError"
proof -
  let ?P = "\<lambda>v i. i < length QUESTIONS \<and> i < length v \<and>
           (v ! i < - int (length (options (QUESTIONS ! i)))
            \<or> int (length (options (QUESTIONS ! i))) \<le> v ! i)"
  let ?a = "[0, 4, 0, 0, 0, 0, 0, 0, 0, 0, 0, 0, 0, 0, 0] :: int list"
  let ?b = "[0, - 5, 0, 0, 0, 0, 0, 0, 0, 0, 0, 0, 0, 0, 0] :: int list"
  let ?c = "[- 4, 3, - 1, 0, 0, 0, 0, 0, 0, 0, 0, 0, 0, 0, 0] :: int list"
  have "?P ?a 1" by (simp add: QUESTIONS_def)
  then have a: "\<exists>i. ?P ?a i" by (rule exI)
  have "?P ?b 1" by (simp add: QUESTIONS_def)
  then have b: "\<exists>i. ?P ?b i" by (rule exI)
  have h: "list_all2 (\<lambda>q sel. - int (length (options q)) \<le> sel \<and> sel < int (length (options q)))
             QUESTIONS ?c"
    by (simp add: QUESTIONS_def)
  have c: "\<not> (\<exists>i. ?P ?c i)"
    using h by (auto simp: list_all2_conv_all_nth)
  show ?thesis
    using a b c fallback_score_index_error [of ?a] fallback_score_index_error [of ?b]
      fallback_score_index_error [of ?c]
    by blast
qed

section \<open>The correct index, the feedback list and the handler, step by step\<close>


lemma py_max_Max: "xs \<noteq> [] \<Longrightarrow> py_max xs = Inr (Max (set xs))"
  by (cases xs) (simp_all add: Max.set_eq_fold [symmetric])

lemma py_index_first:
  "py_index xs v = Inr k \<Longrightarrow> k < length xs \<and> xs ! k = v \<and> (\<forall>j<k. xs ! j \<noteq> v)"
proof (induction xs arbitrary: k)
  case Nil
  then show ?case by simp
next
  case (Cons x xs)
  show ?case
  proof (cases "x = v")
    case True
    with Cons.prems show ?thesis by simp
  next
    case False
    with Cons.prems obtain k' where k': "py_index xs v = Inr k'" "k = Suc k'"
      by (auto split: sum.splits)
    from Cons.IH [OF k'(1)] False k'(2) show ?thesis
      by (auto simp: nth_Cons split: nat.splits)
  qed
qed

lemma py_index_member: "v \<in> set xs \<Longrightarrow> \<exists>k. py_index xs v = Inr k"
  by (induction xs) auto

lemma correct_index_of_first_argmax:
  assumes "scores q \<noteq> []"
  shows "\<exists>k. correct_index_of q = Inr k \<and> k < length (scores q)
             \<and> scores q ! k = Max (set (scores q))
             \<and> (\<forall>j<k. scores q ! j < scores q ! k)"
proof -
  let ?xs = "scores q"
  have m: "py_max ?xs = Inr (Max (set ?xs))" using assms by (rule py_max_Max)
  have "Max (set ?xs) \<in> set ?xs" using assms by (simp add: Max_in)
  then obtain k where k: "py_index ?xs (Max (set ?xs)) = Inr k"
    using py_index_member by blast
  from py_index_first [OF k]
  have p: "k < length ?xs" "?xs ! k = Max (set ?xs)" "\<forall>j<k. ?xs ! j \<noteq> Max (set ?xs)"
    by simp_all
  have "?xs ! j < ?xs ! k" if "j < k" for j
  proof -
    from that p(1) have "?xs ! j \<in> set ?xs" by simp
    then have "?xs ! j \<le> Max (set ?xs)" by simp
    with p(3) that p(2) show ?thesis by (simp add: less_le)
  qed
  with k m p show ?thesis by (simp add: correct_index_of_def)
qed

lemma comprehension_error: "comprehension f xs = Inl e \<Longrightarrow> \<exists>x \<in> set xs. f x = Inl e"
  by (induction xs) (auto split: sum.splits)

lemma comprehension_length: "comprehension f xs = Inr ys \<Longrightarrow> length ys = length xs"
  by (induction xs arbitrary: ys) (auto split: sum.splits)

lemma comprehension_nth:
  "comprehension f xs = Inr ys \<Longrightarrow> i < length xs \<Longrightarrow> f (xs ! i) = Inr (ys ! i)"
proof (induction xs arbitrary: ys i)
  case Nil
  then show ?case by simp
next
  case (Cons x xs)
  from Cons.prems(1) obtain y ys' where y: "f x = Inr y" "comprehension f xs = Inr ys'" "ys = y # ys'"
    by (auto split: sum.splits)
  show ?case
  proof (cases i)
    case 0
    with y show ?thesis by simp
  next
    case (Suc j)
    with Cons.prems(2) have "j < length xs" by simp
    from Cons.IH [OF y(2) this] y(3) Suc show ?thesis by simp
  qed
qed

lemma feedback_entry_error: "feedback_entry answers indices i q = Inl e \<Longrightarrow> e = IndexError"
  by (auto simp: feedback_entry_def py_getitem_error split: sum.splits)

lemma per_question_feedback_error:
  "per_question_feedback answers indices = Inl e \<Longrightarrow> e = IndexError"
  unfolding per_question_feedback_def
  by (auto dest!: comprehension_error feedback_entry_error)

lemma correct_indices_value:
  "correct_indices = Inr [2, 1, 2, 2, 2, 1, 1, 1, 1, 1, 1, 2, 2, 1, 2]"
  by (simp add: correct_indices_def QUESTIONS_def correct_index_of_def)

lemma feedback_entry_fields:
  assumes "feedback_entry answers indices i q = Inr fb"
    and "i < length answers" and "i < length indices"
  shows "fb_chosen_index fb = answers ! i"
    and "fb_correct_index fb = indices ! i"
    and "fb_is_correct fb = (answers ! i = int (indices ! i))"
    and "fb_question fb = question q"
  using assms
  by (auto simp: feedback_entry_def py_getitem_in_range split: sum.splits)

text \<open>
  The handler with the constant parts evaluated: the detail string, and the list of correct
  indices, which does not depend on the request.
\<close>

lemma submit_cases:
  "submit w MODEL MODEL_TYPE user_name answers gemini_key =
     (if length answers \<noteq> length QUESTIONS then
        Inl (HTTPException 400 ''Expected 15 answers'')
      else
        (case fallback_score_from_answers answers of
           Inl e \<Rightarrow> Inl e
         | Inr (total_score, per_q) \<Rightarrow>
             (case per_question_feedback answers [2, 1, 2, 2, 2, 1, 1, 1, 1, 1, 1, 2, 2, 1, 2] of
                Inl e \<Rightarrow> Inl e
              | Inr fbs \<Rightarrow>
                  Inr \<lparr>sr_total_score = total_score,
                       sr_roadmap = fst (generate_roadmap_with_gemini w gemini_key user_name
                          total_score per_q (fst (classifier_step w MODEL MODEL_TYPE answers))),
                       sr_per_question = fbs,
                       sr_prediction = fst (classifier_step w MODEL MODEL_TYPE answers),
                       sr_requests = snd (generate_roadmap_with_gemini w gemini_key user_name
                          total_score per_q (fst (classifier_step w MODEL MODEL_TYPE answers)))\<rparr>)))"
proof -
  have s: "str_nat 15 = ''15''"
    by (simp add: str_nat.simps digit_char_def)
  show ?thesis
    by (auto simp: submit_def length_QUESTIONS s correct_indices_value
        split: prod.splits sum.splits)
qed


lemma fallback_score_error:
  "fallback_score_from_answers answers = Inl e \<Longrightarrow> e = IndexError"
  unfolding fallback_score_from_answers_def by (rule fallback_loop_error)

lemma submit_error_kinds:
  assumes "submit w MODEL MODEL_TYPE user_name answers gemini_key = Inl e"
    and "length answers = length QUESTIONS"
  shows "e = IndexError"
proof (cases "fallback_score_from_answers answers")
  case (Inl e')
  with assms have "e = e'" by (simp add: submit_cases)
  with Inl show ?thesis by (simp add: fallback_score_error)
next
  case (Inr tp)
  obtain t pq where tp: "tp = (t, pq)" by (cases tp)
  show ?thesis
  proof (cases "per_question_feedback answers [2, 1, 2, 2, 2, 1, 1, 1, 1, 1, 1, 2, 2, 1, 2]")
    case (Inl e')
    with assms Inr tp have "e = e'" by (simp add: submit_cases)
    with Inl show ?thesis by (simp add: per_question_feedback_error)
  next
    case (Inr fbs)
    with assms \<open>fallback_score_from_answers answers = Inr tp\<close> tp show ?thesis
      by (simp add: submit_cases)
  qed
qed

lemma submit_http_error:
  "(\<exists>code detail. submit w MODEL MODEL_TYPE user_name answers gemini_key
       = Inl (HTTPException code detail)) \<longleftrightarrow> length answers \<noteq> length QUESTIONS"
proof (cases "length answers = length QUESTIONS")
  case True
  then show ?thesis using submit_error_kinds [of w MODEL MODEL_TYPE user_name answers gemini_key]
    by auto
next
  case False
  then show ?thesis by (simp add: submit_cases)
qed

lemma submit_result_lengths:
  assumes "submit w MODEL MODEL_TYPE user_name answers gemini_key = Inr r"
  shows "length answers = length QUESTIONS" and "length (sr_per_question r) = length QUESTIONS"
    and "per_question_feedback answers [2, 1, 2, 2, 2, 1, 1, 1, 1, 1, 1, 2, 2, 1, 2]
           = Inr (sr_per_question r)"
proof -
  show len: "length answers = length QUESTIONS"
    using assms by (simp add: submit_cases split: if_splits)
  show fbs: "per_question_feedback answers [2, 1, 2, 2, 2, 1, 1, 1, 1, 1, 1, 2, 2, 1, 2]
           = Inr (sr_per_question r)"
  proof (cases "fallback_score_from_answers answers")
    case (Inl e)
    with assms len show ?thesis by (simp add: submit_cases)
  next
    case (Inr tp)
    obtain t pq where tp: "tp = (t, pq)" by (cases tp)
    show ?thesis
    proof (cases "per_question_feedback answers [2, 1, 2, 2, 2, 1, 1, 1, 1, 1, 1, 2, 2, 1, 2]")
      case (Inl e)
      with assms len Inr tp show ?thesis by (simp add: submit_cases)
    next
      case (Inr fbs)
      with assms len \<open>fallback_score_from_answers answers = Inr tp\<close> tp show ?thesis
        by (auto simp: submit_cases)
    qed
  qed
  from comprehension_length [OF fbs [unfolded per_question_feedback_def]]
  show "length (sr_per_question r) = length QUESTIONS"
    by simp
qed


section \<open>Rejecting a submission of the wrong length\<close>

text \<open>
  Claim C3. Scoring a submission fails with the length-mismatch error, the \<open>HTTPException\<close> with
  status 400 that \<open>submit\<close> raises before it scores, exactly when the number of answers differs
  from the number of questions. A shorter or longer answer list is never scored: a result is
  returned only for a list of the bank's length, and it then has one feedback entry per
  question. The check is the guard at the head of \<open>submit\<close>, the only caller of the scorer.
\<close>

theorem submit_length_mismatch:
  "((\<exists>code detail. submit w MODEL MODEL_TYPE user_name answers gemini_key
        = Inl (HTTPException code detail)) \<longleftrightarrow> length answers \<noteq> length QUESTIONS)
   \<and> (length answers \<noteq> length QUESTIONS \<longrightarrow>
        submit w MODEL MODEL_TYPE user_name answers gemini_key
          = Inl (HTTPException 400 ''Expected 15 answers''))
   \<and> (\<forall>r. submit w MODEL MODEL_TYPE user_name answers gemini_key = Inr r \<longrightarrow>
          length answers = length QUESTIONS \<and> length (sr_per_question r) = length QUESTIONS)"
proof (intro conjI allI impI)
  show "(\<exists>code detail. submit w MODEL MODEL_TYPE user_name answers gemini_key
        = Inl (HTTPException code detail)) \<longleftrightarrow> length answers \<noteq> length QUESTIONS"
    by (rule submit_http_error)
next
  assume "length answers \<noteq> length QUESTIONS"
  then show "submit w MODEL MODEL_TYPE user_name answers gemini_key
          = Inl (HTTPException 400 ''Expected 15 answers'')"
    by (simp add: submit_cases)
next
  fix r assume r: "submit w MODEL MODEL_TYPE user_name answers gemini_key = Inr r"
  then show "length answers = length QUESTIONS" by (rule submit_result_lengths)
  from r show "length (sr_per_question r) = length QUESTIONS" by (rule submit_result_lengths)
qed

theorem submit_length_mismatch_witness:
  "submit bare_world None None ''Ada'' [2, 1, 2] None = Inl (HTTPException 400 ''Expected 15 answers'')
   \<and> submit bare_world None None ''Ada'' [0, 0, 0, 0, 0, 0, 0, 0, 0, 0, 0, 0, 0, 0, 0, 0] (Some ''key'')
       = Inl (HTTPException 400 ''Expected 15 answers'')"
proof -
  have a: "length ([2, 1, 2] :: int list) \<noteq> length QUESTIONS"
    by (simp add: length_QUESTIONS)
  have b: "length ([0, 0, 0, 0, 0, 0, 0, 0, 0, 0, 0, 0, 0, 0, 0, 0] :: int list) \<noteq> length QUESTIONS"
    by (simp add: length_QUESTIONS)
  from a submit_length_mismatch [of bare_world None None "''Ada''" "[2, 1, 2]" None]
  have 1: "submit bare_world None None ''Ada'' [2, 1, 2] None
             = Inl (HTTPException 400 ''Expected 15 answers'')"
    by blast
  from b submit_length_mismatch [of bare_world None None "''Ada''"
      "[0, 0, 0, 0, 0, 0, 0, 0, 0, 0, 0, 0, 0, 0, 0, 0]" "Some ''key''"]
  have 2: "submit bare_world None None ''Ada'' [0, 0, 0, 0, 0, 0, 0, 0, 0, 0, 0, 0, 0, 0, 0, 0] (Some ''key'')
       = Inl (HTTPException 400 ''Expected 15 answers'')"
    by blast
  from 1 2 show ?thesis by (rule conjI)
qed

text \<open>
  The scorer on its own has no such check: \<open>zip\<close> ends at the shorter list, so it is the guard
  of \<open>submit\<close> that keeps a short list away from it.
\<close>

lemma fallback_score_without_answers: "fallback_score_from_answers [] = Inr (0, [])"
  by (simp add: fallback_score_from_answers_def)


section \<open>The correct index in the feedback\<close>

text \<open>
  Claim C7. In every result that \<open>submit\<close> returns, the correct index reported for question \<open>i\<close>
  is the value of \<open>scores.index(max(scores))\<close> for that question: it is a position of the
  maximum of the question's scores, every earlier position holds a smaller score, and the
  answer is marked correct exactly when the chosen index, which is the submitted answer,
  equals that index.
\<close>

theorem submit_correct_index:
  assumes ok: "submit w MODEL MODEL_TYPE user_name answers gemini_key = Inr r"
    and i: "i < length QUESTIONS"
  shows "fb_correct_index (sr_per_question r ! i) < length (scores (QUESTIONS ! i))
    \<and> scores (QUESTIONS ! i) ! fb_correct_index (sr_per_question r ! i)
        = Max (set (scores (QUESTIONS ! i)))
    \<and> (\<forall>j < fb_correct_index (sr_per_question r ! i).
          scores (QUESTIONS ! i) ! j < Max (set (scores (QUESTIONS ! i))))
    \<and> correct_index_of (QUESTIONS ! i) = Inr (fb_correct_index (sr_per_question r ! i))
    \<and> fb_chosen_index (sr_per_question r ! i) = answers ! i
    \<and> (fb_is_correct (sr_per_question r ! i) \<longleftrightarrow>
          fb_chosen_index (sr_per_question r ! i) = int (fb_correct_index (sr_per_question r ! i)))"
proof -
  let ?idx = "[2, 1, 2, 2, 2, 1, 1, 1, 1, 1, 1, 2, 2, 1, 2] :: nat list"
  let ?fb = "sr_per_question r ! i"
  let ?q = "QUESTIONS ! i"
  have len: "length answers = length QUESTIONS"
    using ok by (rule submit_result_lengths)
  have fbs: "per_question_feedback answers ?idx = Inr (sr_per_question r)"
    using ok by (rule submit_result_lengths)
  have ie: "i < length (enumerate 0 QUESTIONS)"
    using i by simp
  have "(\<lambda>(i, q). feedback_entry answers ?idx i q) (enumerate 0 QUESTIONS ! i) = Inr ?fb"
    using fbs [unfolded per_question_feedback_def] ie by (rule comprehension_nth)
  then have entry: "feedback_entry answers ?idx i ?q = Inr ?fb"
    using i by (simp add: nth_enumerate_eq)
  have ia: "i < length answers" "i < length ?idx"
    using i len by (simp_all add: length_QUESTIONS)
  note f = feedback_entry_fields [OF entry ia]
  have ci: "correct_index_of ?q = Inr (?idx ! i)"
    using correct_indices_value [unfolded correct_indices_def] i by (rule comprehension_nth)
  have "?q \<in> set QUESTIONS" using i by simp
  then have "length (scores ?q) = 4" by (rule QUESTIONS_lengths)
  then have "scores ?q \<noteq> []" by auto
  from correct_index_of_first_argmax [OF this]
  obtain k where k: "correct_index_of ?q = Inr k" "k < length (scores ?q)"
    "scores ?q ! k = Max (set (scores ?q))" "\<forall>j<k. scores ?q ! j < scores ?q ! k"
    by blast
  from ci k(1) have "k = ?idx ! i" by simp
  with k f(1,2,3) show ?thesis by simp
qed


text \<open>A successful submission, read off from the scorer and the feedback list.\<close>

lemma submit_summary:
  assumes len: "length answers = length QUESTIONS"
    and sc: "map_sum id fst (fallback_score_from_answers answers) = Inr t"
    and fb: "map_sum id g (per_question_feedback answers
               [2, 1, 2, 2, 2, 1, 1, 1, 1, 1, 1, 2, 2, 1, 2]) = Inr y"
  shows "map_sum id (\<lambda>r. (sr_total_score r, g (sr_per_question r)))
           (submit w MODEL MODEL_TYPE user_name answers gemini_key) = Inr (t, y)"
proof -
  from sc obtain pq where 1: "fallback_score_from_answers answers = Inr (t, pq)"
    by (cases "fallback_score_from_answers answers") auto
  from fb obtain fbs where 2: "per_question_feedback answers
               [2, 1, 2, 2, 2, 1, 1, 1, 1, 1, 1, 2, 2, 1, 2] = Inr fbs" and 3: "g fbs = y"
    by (cases "per_question_feedback answers [2, 1, 2, 2, 2, 1, 1, 1, 1, 1, 1, 2, 2, 1, 2]") auto
  from 2 3 show ?thesis
    by (simp add: submit_cases len 1)
qed

theorem submit_correct_index_witness:
  "\<exists>r. submit bare_world None None ''Ada'' [- 2, 1, 0, 2, 2, 1, 1, 1, 1, 1, 1, 2, 2, 1, 2] None = Inr r
     \<and> fb_correct_index (sr_per_question r ! 0) = 2
     \<and> fb_chosen_index (sr_per_question r ! 0) = - 2
     \<and> \<not> fb_is_correct (sr_per_question r ! 0)"
proof -
  let ?v = "[- 2, 1, 0, 2, 2, 1, 1, 1, 1, 1, 1, 2, 2, 1, 2] :: int list"
  have len: "length ?v = length QUESTIONS"
    by (simp add: length_QUESTIONS)
  have sc: "map_sum id fst (fallback_score_from_answers ?v) = Inr 141"
    by (simp add: fallback_score_from_answers_def QUESTIONS_def py_getitem_def)
  have fb: "map_sum id length
       (per_question_feedback ?v [2, 1, 2, 2, 2, 1, 1, 1, 1, 1, 1, 2, 2, 1, 2]) = Inr 15"
    by (simp add: per_question_feedback_def feedback_entry_def QUESTIONS_def py_getitem_def)
  from submit_summary [OF len sc fb, of bare_world None None "''Ada''" None]
  obtain r where r: "submit bare_world None None ''Ada'' ?v None = Inr r"
    by (cases "submit bare_world None None ''Ada'' ?v None") auto
  have i: "0 < length QUESTIONS"
    by (simp add: length_QUESTIONS)
  have c: "correct_index_of (QUESTIONS ! 0) = Inr 2"
    by (simp add: QUESTIONS_def correct_index_of_def)
  from submit_correct_index [OF r i] c
  have "fb_correct_index (sr_per_question r ! 0) = 2
     \<and> fb_chosen_index (sr_per_question r ! 0) = - 2
     \<and> \<not> fb_is_correct (sr_per_question r ! 0)"
    by simp
  with r show ?thesis by blast
qed

section \<open>The two worked examples\<close>

text \<open>
  Claim C9. On the bank of 15 questions, whatever the model, the key and the world are: the
  answers \<open>[2,1,2,2,2,1,1,1,1,1,1,2,2,1,2]\<close> score 150, and in each of the 15 feedback entries the
  chosen index equals the correct index and the entry is marked correct; fifteen answers \<open>0\<close>
  score 32.
\<close>

theorem end_to_end_examples:
  "map_sum id (\<lambda>r. (sr_total_score r,
        map (\<lambda>fb. (fb_chosen_index fb, fb_correct_index fb, fb_is_correct fb)) (sr_per_question r)))
     (submit w MODEL MODEL_TYPE user_name [2, 1, 2, 2, 2, 1, 1, 1, 1, 1, 1, 2, 2, 1, 2] gemini_key)
     = Inr (150, [(2, 2, True), (1, 1, True), (2, 2, True), (2, 2, True), (2, 2, True),
                  (1, 1, True), (1, 1, True), (1, 1, True), (1, 1, True), (1, 1, True),
                  (1, 1, True), (2, 2, True), (2, 2, True), (1, 1, True), (2, 2, True)])
   \<and> map_sum id fst (fallback_score_from_answers [2, 1, 2, 2, 2, 1, 1, 1, 1, 1, 1, 2, 2, 1, 2])
       = Inr 150
   \<and> map_sum id (\<lambda>r. (sr_total_score r, length (sr_per_question r)))
       (submit w MODEL MODEL_TYPE user_name [0, 0, 0, 0, 0, 0, 0, 0, 0, 0, 0, 0, 0, 0, 0] gemini_key)
       = Inr (32, 15)
   \<and> map_sum id fst (fallback_score_from_answers [0, 0, 0, 0, 0, 0, 0, 0, 0, 0, 0, 0, 0, 0, 0])
       = Inr 32"
proof -
  let ?best = "[2, 1, 2, 2, 2, 1, 1, 1, 1, 1, 1, 2, 2, 1, 2] :: int list"
  let ?zero = "[0, 0, 0, 0, 0, 0, 0, 0, 0, 0, 0, 0, 0, 0, 0] :: int list"
  let ?idx = "[2, 1, 2, 2, 2, 1, 1, 1, 1, 1, 1, 2, 2, 1, 2] :: nat list"
  have lb: "length ?best = length QUESTIONS" and lz: "length ?zero = length QUESTIONS"
    by (simp_all add: length_QUESTIONS)
  have sb: "map_sum id fst (fallback_score_from_answers ?best) = Inr 150"
    by (simp add: fallback_score_from_answers_def QUESTIONS_def py_getitem_def)
  have sz: "map_sum id fst (fallback_score_from_answers ?zero) = Inr 32"
    by (simp add: fallback_score_from_answers_def QUESTIONS_def py_getitem_def)
  have fb: "map_sum id (map (\<lambda>fb. (fb_chosen_index fb, fb_correct_index fb, fb_is_correct fb)))
       (per_question_feedback ?best ?idx)
     = Inr [(2, 2, True), (1, 1, True), (2, 2, True), (2, 2, True), (2, 2, True),
            (1, 1, True), (1, 1, True), (1, 1, True), (1, 1, True), (1, 1, True),
            (1, 1, True), (2, 2, True), (2, 2, True), (1, 1, True), (2, 2, True)]"
    by (simp add: per_question_feedback_def feedback_entry_def QUESTIONS_def py_getitem_def)
  have fz: "map_sum id length (per_question_feedback ?zero ?idx) = Inr 15"
    by (simp add: per_question_feedback_def feedback_entry_def QUESTIONS_def py_getitem_def)
  note 1 = submit_summary [OF lb sb fb, of w MODEL MODEL_TYPE user_name gemini_key]
  note 2 = submit_summary [OF lz sz fz, of w MODEL MODEL_TYPE user_name gemini_key]
  from 1 sb 2 sz show ?thesis by (intro conjI)
qed

section \<open>The roadmap without a key\<close>


lemma heuristic_plan_shape:
  "\<exists>weeks resources.
      field heuristic_plan ''weeks'' = Some (JArr weeks) \<and> length weeks = 6
    \<and> map (\<lambda>wk. field wk ''week'') weeks = map (\<lambda>n. Some (JInt n)) [1, 2, 3, 4, 5, 6]
    \<and> field heuristic_plan ''resources'' = Some (JArr resources) \<and> length resources = 2"
  by (simp add: heuristic_plan_def week_entry_def)

text \<open>
  Claim C4. Called without a per-request key in a process without \<open>GEMINI_API_KEY\<close>, the roadmap
  generator returns the same fixed plan for every user name, score, list of per-question
  records and prediction, and sends no request. The plan has exactly 6 weeks and exactly 2
  resources.
\<close>

theorem no_credential_static_plan:
  assumes "getenv w ''GEMINI_API_KEY'' = None"
  shows "generate_roadmap_with_gemini w None user_name total_score per_question prediction
           = (heuristic_plan, [])
    \<and> (\<exists>weeks resources.
          field heuristic_plan ''weeks'' = Some (JArr weeks) \<and> length weeks = 6
        \<and> field heuristic_plan ''resources'' = Some (JArr resources) \<and> length resources = 2)"
proof
  show "generate_roadmap_with_gemini w None user_name total_score per_question prediction
           = (heuristic_plan, [])"
    using assms by (simp add: generate_roadmap_with_gemini_def gemini_api_key_of_def)
  show "\<exists>weeks resources.
          field heuristic_plan ''weeks'' = Some (JArr weeks) \<and> length weeks = 6
        \<and> field heuristic_plan ''resources'' = Some (JArr resources) \<and> length resources = 2"
    using heuristic_plan_shape by blast
qed

theorem no_credential_static_plan_witness:
  "generate_roadmap_with_gemini bare_world None ''Ada'' 150 [] None = (heuristic_plan, [])
   \<and> generate_roadmap_with_gemini (answering_world (JObj [])) None ''Bob'' 32
        [\<lparr>pq_question = ''Q'', pq_selected = ''A'', pq_score = 2\<rparr>] (Some ''1'')
       = (heuristic_plan, [])"
proof -
  have a: "getenv bare_world ''GEMINI_API_KEY'' = None"
    by (simp add: bare_world_def)
  have b: "getenv (answering_world (JObj [])) ''GEMINI_API_KEY'' = None"
    by (simp add: answering_world_def bare_world_def)
  from no_credential_static_plan [OF a] no_credential_static_plan [OF b]
  show ?thesis by blast
qed

text \<open>
  Claim C10. An empty string as per-request key is treated like an absent key: without
  \<open>GEMINI_API_KEY\<close> in the environment the generator returns the fixed plan and sends no
  request, exactly as it does for \<open>None\<close>.
\<close>

theorem empty_key_static_plan:
  assumes "getenv w ''GEMINI_API_KEY'' = None"
  shows "generate_roadmap_with_gemini w (Some []) user_name total_score per_question prediction
           = (heuristic_plan, [])
    \<and> generate_roadmap_with_gemini w (Some []) user_name total_score per_question prediction
        = generate_roadmap_with_gemini w None user_name total_score per_question prediction"
  using assms by (simp add: generate_roadmap_with_gemini_def gemini_api_key_of_def)

theorem empty_key_static_plan_witness:
  "generate_roadmap_with_gemini (answering_world (JObj [])) (Some '''') ''Ada'' 150 [] None
     = (heuristic_plan, [])"
proof -
  have b: "getenv (answering_world (JObj [])) ''GEMINI_API_KEY'' = None"
    by (simp add: answering_world_def bare_world_def)
  from empty_key_static_plan [OF b] show ?thesis by blast
qed

section \<open>The roadmap with a key\<close>


lemma credential_available:
  assumes "api_key = Some k \<or> ((api_key = None \<or> api_key = Some []) \<and> getenv w ''GEMINI_API_KEY'' = Some k)"
    and "k \<noteq> []"
  shows "gemini_api_key_of w api_key = Some k"
  using assms by (auto simp: gemini_api_key_of_def)

lemma generate_with_key:
  assumes "gemini_api_key_of w api_key = Some k" and "k \<noteq> []"
  shows "generate_roadmap_with_gemini w api_key user_name total_score per_question prediction =
     (let req = build_request k (build_prompt w user_name total_score per_question) in
      (case requests_post w req of
         Inl e \<Rightarrow> call_failed e
       | Inr r \<Rightarrow>
           (case raise_for_status r of
              Some e \<Rightarrow> call_failed e
            | None \<Rightarrow>
                (case json_body r of
                   Inl e \<Rightarrow> call_failed e
                 | Inr resp \<Rightarrow>
                     (case response_text w resp of
                        Inl e \<Rightarrow> call_failed e
                      | Inr text \<Rightarrow> parse_text w text))),
       [req]))"
  using assms by (simp add: generate_roadmap_with_gemini_def Let_def)

lemma call_failed_not_plan: "call_failed e \<noteq> heuristic_plan"
  by (simp add: call_failed_def heuristic_plan_def)

text \<open>
  Claim C5. With a key available (the per-request key, or \<open>GEMINI_API_KEY\<close> when the per-request
  key is absent or empty), if the call to the service fails, because \<open>requests.post\<close> raises
  (a timeout, a connection error) or because \<open>raise_for_status\<close> raises on the status of the
  response, the result is a dict with the single key \<open>summary\<close>, whose text starts with
  \<open>Gemini call failed:\<close> and carries the message of the exception. It has no weeks and no
  resources, and it is not the fixed plan of the case without a key. Which status codes make
  \<open>raise_for_status\<close> raise is decided by the HTTP library.
\<close>

theorem service_failure_summary_only:
  assumes key: "api_key = Some k \<or>
                ((api_key = None \<or> api_key = Some []) \<and> getenv w ''GEMINI_API_KEY'' = Some k)"
    and nonempty: "k \<noteq> []"
    and req: "req = build_request k (build_prompt w user_name total_score per_question)"
    and failure: "requests_post w req = Inl e
                  \<or> (\<exists>r. requests_post w req = Inr r \<and> raise_for_status r = Some e)"
  shows "generate_roadmap_with_gemini w api_key user_name total_score per_question prediction
           = (JObj [(''summary'',
                     JStr (''Gemini call failed: '' @ e @ ''. Returning heuristic roadmap.''))],
              [req])
    \<and> field (fst (generate_roadmap_with_gemini w api_key user_name total_score per_question
                    prediction)) ''weeks'' = None
    \<and> field (fst (generate_roadmap_with_gemini w api_key user_name total_score per_question
                    prediction)) ''resources'' = None
    \<and> fst (generate_roadmap_with_gemini w api_key user_name total_score per_question prediction)
        \<noteq> heuristic_plan"
proof -
  have k: "gemini_api_key_of w api_key = Some k"
    using key nonempty by (rule credential_available)
  have "generate_roadmap_with_gemini w api_key user_name total_score per_question prediction
          = (call_failed e, [req])"
    using failure by (auto simp: generate_with_key [OF k nonempty] req)
  then show ?thesis
    using call_failed_not_plan [of e] by (simp add: call_failed_def)
qed

theorem service_failure_summary_only_witness:
  "generate_roadmap_with_gemini bare_world (Some ''key'') ''Ada'' 150 [] None
     = (JObj [(''summary'',
               JStr ''Gemini call failed: Connection refused. Returning heuristic roadmap.'')],
        [build_request ''key'' (build_prompt bare_world ''Ada'' 150 [])])
   \<and> fst (generate_roadmap_with_gemini refusing_world (Some ''key'') ''Ada'' 150 [] None)
     = JObj [(''summary'',
               JStr ''Gemini call failed: 500 Server Error. Returning heuristic roadmap.'')]"
proof -
  have n: "''key'' \<noteq> []" by simp
  have a: "requests_post bare_world (build_request ''key'' (build_prompt bare_world ''Ada'' 150 []))
             = Inl ''Connection refused''
           \<or> (\<exists>r. requests_post bare_world
                     (build_request ''key'' (build_prompt bare_world ''Ada'' 150 [])) = Inr r
                  \<and> raise_for_status r = Some ''Connection refused'')"
    by (simp add: bare_world_def)
  have b: "requests_post refusing_world (build_request ''key'' (build_prompt refusing_world ''Ada'' 150 []))
             = Inl ''500 Server Error''
           \<or> (\<exists>r. requests_post refusing_world
                     (build_request ''key'' (build_prompt refusing_world ''Ada'' 150 [])) = Inr r
                  \<and> raise_for_status r = Some ''500 Server Error'')"
    by (simp add: refusing_world_def bare_world_def)
  have k: "Some ''key'' = Some ''key'' \<or> ((Some ''key'' = None \<or> Some ''key'' = Some [])
             \<and> getenv w ''GEMINI_API_KEY'' = Some ''key'')" for w
    by simp
  from service_failure_summary_only [OF k n refl a, of None]
    service_failure_summary_only [OF k n refl b, of None]
  show ?thesis by simp
qed


lemma response_text_dict:
  "response_text w (JObj kvs) =
     Inr (py_or (case map_of kvs ''output_text'' of None \<Rightarrow> JNull | Some v \<Rightarrow> v)
            (py_or (case map_of kvs ''result'' of None \<Rightarrow> JNull | Some v \<Rightarrow> v)
               (JStr (json_dumps w (JObj kvs)))))"
  by (simp add: response_text_def py_or_def)

text \<open>
  Claim C8. With a key available, when the service answers, \<open>raise_for_status\<close> does not raise
  and the body decodes to a JSON object, the text of the answer is its \<open>output_text\<close> field,
  else its \<open>result\<close> field, else the re-encoded body (the first of them that is truthy). If the
  text is a string that \<open>json.loads\<close> parses, the parsed value is returned as it is; if it is a
  string that does not parse, or not a string at all, the result is the dict with the single
  key \<open>summary\<close> holding the text, without weeks and resources. One request is sent.
\<close>

theorem service_success_parsed_or_raw:
  assumes key: "api_key = Some k \<or>
                ((api_key = None \<or> api_key = Some []) \<and> getenv w ''GEMINI_API_KEY'' = Some k)"
    and nonempty: "k \<noteq> []"
    and req: "req = build_request k (build_prompt w user_name total_score per_question)"
    and response: "requests_post w req = Inr r" "raise_for_status r = None"
      "json_body r = Inr (JObj kvs)"
    and raw: "text = py_or (case map_of kvs ''output_text'' of None \<Rightarrow> JNull | Some v \<Rightarrow> v)
                       (py_or (case map_of kvs ''result'' of None \<Rightarrow> JNull | Some v \<Rightarrow> v)
                          (JStr (json_dumps w (JObj kvs))))"
  shows "(\<forall>s parsed. text = JStr s \<and> json_loads w s = Some parsed \<longrightarrow>
            generate_roadmap_with_gemini w api_key user_name total_score per_question prediction
              = (parsed, [req]))
    \<and> (\<forall>s. text = JStr s \<and> json_loads w s = None \<longrightarrow>
            generate_roadmap_with_gemini w api_key user_name total_score per_question prediction
              = (JObj [(''summary'', JStr s)], [req]))
    \<and> ((\<forall>s. text \<noteq> JStr s) \<longrightarrow>
            generate_roadmap_with_gemini w api_key user_name total_score per_question prediction
              = (JObj [(''summary'', text)], [req]))
    \<and> field (JObj [(''summary'', text)]) ''weeks'' = None
    \<and> field (JObj [(''summary'', text)]) ''resources'' = None"
proof -
  have k: "gemini_api_key_of w api_key = Some k"
    using key nonempty by (rule credential_available)
  have g: "generate_roadmap_with_gemini w api_key user_name total_score per_question prediction
          = (parse_text w text, [req])"
    by (simp add: generate_with_key [OF k nonempty] req [symmetric] response response_text_dict
        raw [symmetric])
  show ?thesis
    unfolding g by (auto simp: parse_text_def split: json.splits)
qed

theorem service_success_parsed_or_raw_witness:
  "generate_roadmap_with_gemini (answering_world (JObj [(''output_text'', JStr ''{}'')]))
      (Some ''key'') ''Ada'' 150 [] None
     = (JObj [], [build_request ''key''
          (build_prompt (answering_world (JObj [(''output_text'', JStr ''{}'')])) ''Ada'' 150 [])])
   \<and> generate_roadmap_with_gemini (answering_world (JObj [(''result'', JStr ''Study more.'')]))
      (Some ''key'') ''Ada'' 150 [] None
     = (JObj [(''summary'', JStr ''Study more.'')], [build_request ''key''
          (build_prompt (answering_world (JObj [(''result'', JStr ''Study more.'')])) ''Ada'' 150 [])])"
proof -
  let ?b1 = "[(''output_text'', JStr ''{}'')]"
  let ?b2 = "[(''result'', JStr ''Study more.'')]"
  let ?w1 = "answering_world (JObj ?b1)"
  let ?w2 = "answering_world (JObj ?b2)"
  let ?r1 = "\<lparr>raise_for_status = None, json_body = Inr (JObj ?b1)\<rparr>"
  let ?r2 = "\<lparr>raise_for_status = None, json_body = Inr (JObj ?b2)\<rparr>"
  have n: "''key'' \<noteq> []" by simp
  have k: "Some ''key'' = Some ''key'' \<or> ((Some ''key'' = None \<or> Some ''key'' = Some [])
             \<and> getenv w ''GEMINI_API_KEY'' = Some ''key'')" for w
    by simp
  have p1: "requests_post ?w1 q = Inr ?r1" for q
    by (simp add: answering_world_def bare_world_def)
  have p2: "requests_post ?w2 q = Inr ?r2" for q
    by (simp add: answering_world_def bare_world_def)
  have s1: "raise_for_status ?r1 = None" "json_body ?r1 = Inr (JObj ?b1)" by simp_all
  have s2: "raise_for_status ?r2 = None" "json_body ?r2 = Inr (JObj ?b2)" by simp_all
  have l1: "json_loads ?w1 ''{}'' = Some (JObj [])"
    by (simp add: answering_world_def bare_world_def)
  have l2: "json_loads ?w2 ''Study more.'' = None"
    by (simp add: answering_world_def bare_world_def)
  have t1: "py_or (case map_of ?b1 ''output_text'' of None \<Rightarrow> JNull | Some v \<Rightarrow> v)
              (py_or (case map_of ?b1 ''result'' of None \<Rightarrow> JNull | Some v \<Rightarrow> v)
                 (JStr (json_dumps ?w1 (JObj ?b1)))) = JStr ''{}''"
    by (simp add: py_or_def)
  have t2: "py_or (case map_of ?b2 ''output_text'' of None \<Rightarrow> JNull | Some v \<Rightarrow> v)
              (py_or (case map_of ?b2 ''result'' of None \<Rightarrow> JNull | Some v \<Rightarrow> v)
                 (JStr (json_dumps ?w2 (JObj ?b2)))) = JStr ''Study more.''"
    by (simp add: py_or_def)
  from service_success_parsed_or_raw [OF k n refl p1 s1 t1 [symmetric], of "''Ada''" 150 "[]" None] l1
  have 1: "generate_roadmap_with_gemini ?w1 (Some ''key'') ''Ada'' 150 [] None
     = (JObj [], [build_request ''key'' (build_prompt ?w1 ''Ada'' 150 [])])"
    by blast
  from service_success_parsed_or_raw [OF k n refl p2 s2 t2 [symmetric], of "''Ada''" 150 "[]" None] l2
  have 2: "generate_roadmap_with_gemini ?w2 (Some ''key'') ''Ada'' 150 [] None
     = (JObj [(''summary'', JStr ''Study more.'')], [build_request ''key'' (build_prompt ?w2 ''Ada'' 150 [])])"
    by blast
  from 1 2 show ?thesis by (rule conjI)
qed

section \<open>The classifier step\<close>


lemma classifier_step_no_model:
  "classifier_step w None MODEL_TYPE answers = (None, None)"
  by (simp add: classifier_step_def)

lemma generate_roadmap_ignores_prediction:
  "generate_roadmap_with_gemini w api_key user_name total_score per_question prediction
     = generate_roadmap_with_gemini w api_key user_name total_score per_question None"
  by (simp add: generate_roadmap_with_gemini_def)

lemma submit_model_independent:
  "submit w MODEL MODEL_TYPE user_name answers gemini_key =
     map_sum id (\<lambda>r. r\<lparr>sr_prediction := fst (classifier_step w MODEL MODEL_TYPE answers)\<rparr>)
       (submit w None None user_name answers gemini_key)"
proof -
  let ?p = "fst (classifier_step w MODEL MODEL_TYPE answers)"
  have g: "generate_roadmap_with_gemini w gemini_key user_name t pq ?p
            = generate_roadmap_with_gemini w gemini_key user_name t pq None" for t pq
    by (rule generate_roadmap_ignores_prediction)
  show ?thesis
    by (simp add: submit_cases [of w MODEL] submit_cases [of w None] g classifier_step_no_model
        split: sum.splits prod.splits)
qed

lemma load_xgb_model_absent:
  assumes "\<not> path_exists w path"
    and "\<not> path_exists w (case getenv w ''XGB_MODEL_PATH'' of None \<Rightarrow> path | Some p \<Rightarrow> p)"
  shows "load_xgb_model w path = (None, None)"
  using assms by (simp add: load_xgb_model_def)

lemma load_xgb_model_unloadable:
  assumes "path_exists w path" and "joblib_load w path = None"
    and "\<not> xgb_imported w \<or> booster_load_model w path = None"
  shows "load_xgb_model w path = (None, None)"
  using assms by (auto simp: load_xgb_model_def try_loaders_def)

lemma classifier_step_predict_raises:
  assumes "predict m [answers] = Inl e"
  shows "classifier_step w (Some m) MODEL_TYPE answers = (None, None)"
  using assms by (simp add: classifier_step_def features_from_answers_def Let_def)

lemma classifier_step_no_label:
  assumes "predict m [answers] = Inr pred" and "subscript0 pred = None"
  shows "classifier_step w (Some m) (Some ''sklearn'') answers = (None, None)"
  using assms by (simp add: classifier_step_def features_from_answers_def Let_def)

lemma classifier_step_proba_raises:
  assumes "length answers = length QUESTIONS"
    and "predict m [answers] = Inr pred" and "subscript0 pred = Some p0"
    and "predict_proba m [answers] = Inl e"
  shows "classifier_step w (Some m) (Some ''sklearn'') answers = (Some (py_str w p0), None)"
  using assms by (simp add: classifier_step_def features_from_answers_def Let_def)

text \<open>
  Claim C6, as the code has it. The classifier step raises nothing outward: the outcome of
  \<open>submit\<close> with any model is the outcome without a model, error or result, with only the stored
  prediction replaced, so the total score, the feedback and the roadmap are untouched. When
  the model file and its alternative path do not exist, or the file exists and neither loader
  can read it, \<open>load_xgb_model\<close> gives \<open>(None, None)\<close>, and without a model the prediction is
  absent. An exception raised by \<open>predict\<close>, and a prediction from which \<open>pred[0]\<close> cannot be read,
  give an absent prediction. An exception raised by \<open>predict_proba\<close> is caught by the inner
  \<open>try\<close> of its own and the label computed from \<open>predict\<close> is kept.
\<close>

theorem classifier_degrades:
  "submit w MODEL MODEL_TYPE user_name answers gemini_key =
     map_sum id (\<lambda>r. r\<lparr>sr_prediction := fst (classifier_step w MODEL MODEL_TYPE answers)\<rparr>)
       (submit w None None user_name answers gemini_key)
   \<and> (\<not> path_exists w path
        \<and> \<not> path_exists w (case getenv w ''XGB_MODEL_PATH'' of None \<Rightarrow> path | Some p \<Rightarrow> p)
       \<longrightarrow> load_xgb_model w path = (None, None))
   \<and> (path_exists w path \<and> joblib_load w path = None
        \<and> (\<not> xgb_imported w \<or> booster_load_model w path = None)
       \<longrightarrow> load_xgb_model w path = (None, None))
   \<and> classifier_step w None MODEL_TYPE answers = (None, None)
   \<and> (\<forall>m e. predict m [answers] = Inl e \<longrightarrow>
          classifier_step w (Some m) MODEL_TYPE answers = (None, None))
   \<and> (\<forall>m pred. predict m [answers] = Inr pred \<and> subscript0 pred = None \<longrightarrow>
          classifier_step w (Some m) (Some ''sklearn'') answers = (None, None))
   \<and> (\<forall>m pred p0 e. length answers = length QUESTIONS \<and> predict m [answers] = Inr pred
          \<and> subscript0 pred = Some p0 \<and> predict_proba m [answers] = Inl e \<longrightarrow>
          classifier_step w (Some m) (Some ''sklearn'') answers = (Some (py_str w p0), None))"
  using submit_model_independent [of w MODEL MODEL_TYPE user_name answers gemini_key]
    load_xgb_model_absent [of w path] load_xgb_model_unloadable [of w path]
    classifier_step_no_model [of w MODEL_TYPE answers]
    classifier_step_predict_raises [of _ answers _ w MODEL_TYPE]
    classifier_step_no_label [of _ answers _ w]
    classifier_step_proba_raises [of answers _ _ _ _ w]
  by blast

text \<open>
  Claim C6 as stated says that any exception raised during prediction yields an absent
  prediction. For an estimator whose \<open>predict\<close> answers and whose \<open>predict_proba\<close> raises, the
  prediction is the label \<open>1\<close>, in the classifier step and in the result that \<open>submit\<close> stores.
\<close>

theorem proba_exception_counterexample:
  "predict_proba label_only_model [[2, 1, 2, 2, 2, 1, 1, 1, 1, 1, 1, 2, 2, 1, 2]]
     = Inl ''predict_proba is not available''
   \<and> classifier_step bare_world (Some label_only_model) (Some ''sklearn'')
        [2, 1, 2, 2, 2, 1, 1, 1, 1, 1, 1, 2, 2, 1, 2]
     = (Some ''1'', None)
   \<and> map_sum id sr_prediction
        (submit bare_world (Some label_only_model) (Some ''sklearn'') ''Ada''
           [2, 1, 2, 2, 2, 1, 1, 1, 1, 1, 1, 2, 2, 1, 2] None)
     = Inr (Some ''1'')"
proof -
  let ?best = "[2, 1, 2, 2, 2, 1, 1, 1, 1, 1, 1, 2, 2, 1, 2] :: int list"
  have 1: "predict_proba label_only_model [?best] = Inl ''predict_proba is not available''"
    by (simp add: label_only_model_def)
  have 2: "classifier_step bare_world (Some label_only_model) (Some ''sklearn'') ?best
             = (Some ''1'', None)"
    by (simp add: classifier_step_def features_from_answers_def length_QUESTIONS
        label_only_model_def bare_world_def)
  have len: "length ?best = length QUESTIONS"
    by (simp add: length_QUESTIONS)
  have sc: "map_sum id fst (fallback_score_from_answers ?best) = Inr 150"
    by (simp add: fallback_score_from_answers_def QUESTIONS_def py_getitem_def)
  have fb: "map_sum id length
       (per_question_feedback ?best [2, 1, 2, 2, 2, 1, 1, 1, 1, 1, 1, 2, 2, 1, 2]) = Inr 15"
    by (simp add: per_question_feedback_def feedback_entry_def QUESTIONS_def py_getitem_def)
  from submit_summary [OF len sc fb, of bare_world None None "''Ada''" None]
  obtain r where r: "submit bare_world None None ''Ada'' ?best None = Inr r"
    by (cases "submit bare_world None None ''Ada'' ?best None") auto
  have 3: "map_sum id sr_prediction
        (submit bare_world (Some label_only_model) (Some ''sklearn'') ''Ada'' ?best None)
     = Inr (Some ''1'')"
    by (simp add: submit_model_independent [of bare_world "Some label_only_model"] r 2)
  from 1 2 3 show ?thesis by (intro conjI)
qed

theorem classifier_degrades_witness:
  "classifier_step bare_world (Some broken_model) (Some ''sklearn'')
      [2, 1, 2, 2, 2, 1, 1, 1, 1, 1, 1, 2, 2, 1, 2] = (None, None)
   \<and> classifier_step bare_world (Some broken_model) (Some ''booster'')
      [2, 1, 2, 2, 2, 1, 1, 1, 1, 1, 1, 2, 2, 1, 2] = (None, None)
   \<and> classifier_step bare_world (Some label_only_model) (Some ''sklearn'')
      [2, 1, 2, 2, 2, 1, 1, 1, 1, 1, 1, 2, 2, 1, 2] = (Some ''1'', None)
   \<and> load_xgb_model bare_world (MODEL_PATH bare_world) = (None, None)
   \<and> map_sum id (\<lambda>r. (sr_total_score r, sr_prediction r))
        (submit bare_world (Some broken_model) (Some ''sklearn'') ''Ada''
           [2, 1, 2, 2, 2, 1, 1, 1, 1, 1, 1, 2, 2, 1, 2] None)
      = Inr (150, None)"
proof -
  let ?best = "[2, 1, 2, 2, 2, 1, 1, 1, 1, 1, 1, 2, 2, 1, 2] :: int list"
  have p: "predict broken_model [?best] = Inl ''Feature shape mismatch''"
    by (simp add: broken_model_def)
  have len: "length ?best = length QUESTIONS"
    by (simp add: length_QUESTIONS)
  have q: "length ?best = length QUESTIONS \<and> predict label_only_model [?best] = Inr (JArr [JInt 1])
      \<and> subscript0 (JArr [JInt 1]) = Some (JInt 1)
      \<and> predict_proba label_only_model [?best] = Inl ''predict_proba is not available''"
    by (simp add: label_only_model_def length_QUESTIONS)
  have a: "\<not> path_exists bare_world (MODEL_PATH bare_world)
     \<and> \<not> path_exists bare_world (case getenv bare_world ''XGB_MODEL_PATH'' of
           None \<Rightarrow> MODEL_PATH bare_world | Some p \<Rightarrow> p)"
    by (simp add: bare_world_def)
  note c = classifier_degrades [of bare_world "Some broken_model" _ "''Ada''" ?best None
      "MODEL_PATH bare_world"]
  from c [of "Some ''sklearn''"] p
  have 1: "classifier_step bare_world (Some broken_model) (Some ''sklearn'') ?best = (None, None)"
    by blast
  from c [of "Some ''booster''"] p
  have 2: "classifier_step bare_world (Some broken_model) (Some ''booster'') ?best = (None, None)"
    by blast
  from c [of "Some ''sklearn''"] q
  have "classifier_step bare_world (Some label_only_model) (Some ''sklearn'') ?best
          = (Some (py_str bare_world (JInt 1)), None)"
    by blast
  then have 3: "classifier_step bare_world (Some label_only_model) (Some ''sklearn'') ?best
          = (Some ''1'', None)"
    by (simp add: bare_world_def)
  from c [of "Some ''sklearn''"] a
  have 4: "load_xgb_model bare_world (MODEL_PATH bare_world) = (None, None)"
    by blast
  have sc: "map_sum id fst (fallback_score_from_answers ?best) = Inr 150"
    by (simp add: fallback_score_from_answers_def QUESTIONS_def py_getitem_def)
  have fb: "map_sum id length
       (per_question_feedback ?best [2, 1, 2, 2, 2, 1, 1, 1, 1, 1, 1, 2, 2, 1, 2]) = Inr 15"
    by (simp add: per_question_feedback_def feedback_entry_def QUESTIONS_def py_getitem_def)
  from submit_summary [OF len sc fb, of bare_world None None "''Ada''" None]
  obtain r where r: "submit bare_world None None ''Ada'' ?best None = Inr r"
    and t: "sr_total_score r = 150"
    by (cases "submit bare_world None None ''Ada'' ?best None") auto
  from c [of "Some ''sklearn''"]
  have "submit bare_world (Some broken_model) (Some ''sklearn'') ''Ada'' ?best None =
     map_sum id (\<lambda>r. r\<lparr>sr_prediction :=
         fst (classifier_step bare_world (Some broken_model) (Some ''sklearn'') ?best)\<rparr>)
       (submit bare_world None None ''Ada'' ?best None)"
    by blast
  then have 5: "map_sum id (\<lambda>r. (sr_total_score r, sr_prediction r))
        (submit bare_world (Some broken_model) (Some ''sklearn'') ''Ada'' ?best None)
      = Inr (150, None)"
    by (simp add: r 1 t)
  from 1 2 3 4 5 show ?thesis by (intro conjI)
qed

end
